theory Spec2Isabelle
  imports Complex_Main
begin

section \<open>JavaScript strings\<close>

text \<open>
  A JavaScript string is a sequence of UTF-16 code units, and \<^verbatim>\<open>.length\<close>,
  indexing, \<^verbatim>\<open>split\<close>, \<^verbatim>\<open>trim\<close> and a regular expression without the \<^verbatim>\<open>u\<close> flag all
  work on code units. A code unit is modelled as a natural number (the code units are
  the numbers below 65536) and a string as the list of its code units. \<open>utf16\<close> gives
  the string of an ASCII literal.
\<close>

type_synonym js_string = "nat list"

definition utf16 :: "string \<Rightarrow> js_string" where
  "utf16 s = map of_char s"

abbreviation SPACE :: nat where
  "SPACE \<equiv> 32"

text \<open>
  The line terminators of the language: LF, CR, U+2028 and U+2029. The white space that
  \<^verbatim>\<open>trim\<close> removes: TAB, VT, FF, SPACE, U+00A0, U+FEFF, the other space separators
  (U+1680, U+2000 to U+200A, U+202F, U+205F, U+3000), and the line terminators.
\<close>

definition isLineTerminator :: "nat \<Rightarrow> bool" where
  "isLineTerminator c = (c \<in> set [0x0A, 0x0D, 0x2028, 0x2029])"

definition isWhiteSpace :: "nat \<Rightarrow> bool" where
  "isWhiteSpace c =
     (c \<in> set [0x09, 0x0B, 0x0C, 0x20, 0xA0, 0x1680, 0x202F, 0x205F, 0x3000, 0xFEFF] \<or>
      (0x2000 \<le> c \<and> c \<le> 0x200A) \<or>
      isLineTerminator c)"

text \<open>\<^verbatim>\<open>String.prototype.trim\<close>: white space is removed at both ends.\<close>

definition trim :: "js_string \<Rightarrow> js_string" where
  "trim s = rev (dropWhile isWhiteSpace (rev (dropWhile isWhiteSpace s)))"

text \<open>
  \<^verbatim>\<open>s.split(sep)\<close> for a separator of one code unit: the pieces between the
  occurrences of \<open>sep\<close>, empty pieces included; the empty string gives one empty piece.
\<close>

fun split :: "'a \<Rightarrow> 'a list \<Rightarrow> 'a list list" where
  "split sep [] = [[]]"
| "split sep (c # cs) =
     (if c = sep then [] # split sep cs
      else (case split sep cs of
              [] \<Rightarrow> [[c]]
            | w # ws \<Rightarrow> (c # w) # ws))"

text \<open>\<^verbatim>\<open>words.join(sep)\<close>.\<close>

fun join :: "'a list \<Rightarrow> 'a list list \<Rightarrow> 'a list" where
  "join sep [] = []"
| "join sep [w] = w"
| "join sep (w # v # ws) = w @ sep @ join sep (v # ws)"

text \<open>\<^verbatim>\<open>s.endsWith(suffix)\<close>.\<close>

definition endsWith :: "'a list \<Rightarrow> 'a list \<Rightarrow> bool" where
  "endsWith s suffix = (length suffix \<le> length s \<and> drop (length s - length suffix) s = suffix)"

section \<open>What the schemas take from the library and the engine\<close>

text \<open>
  Three functions the schemas call are not code of the repository, and the schemas
  take them as parameters:
  \<^item> \<open>isEmail\<close>: the pattern of \<^verbatim>\<open>.email()\<close> of the validation library;
  \<^item> \<open>toLocaleUpperCase\<close>: \<^verbatim>\<open>String.prototype.toLocaleUpperCase\<close> of the engine, in the
    locale of the host, on the string \<^verbatim>\<open>word[0]\<close> of one code unit; the result is a
    string, which can be longer than one code unit;
  \<^item> \<open>toLowerCase\<close>: \<^verbatim>\<open>String.prototype.toLowerCase\<close> of the engine.
\<close>

record platform =
  isEmail :: "js_string \<Rightarrow> bool"
  toLocaleUpperCase :: "nat \<Rightarrow> js_string"
  toLowerCase :: "js_string \<Rightarrow> js_string"

section \<open>Exceptions\<close>

text \<open>
  A callback of the schema can raise a \<^verbatim>\<open>TypeError\<close> (a property read on
  \<^verbatim>\<open>undefined\<close> or \<^verbatim>\<open>null\<close>). The validation library does not catch it and the
  resolver rethrows whatever is not a validation error, so the exception leaves the
  whole validation. \<open>Threw\<close> is that outcome.
\<close>

datatype 'a outcome = Threw | Returned 'a

fun mapM :: "('a \<Rightarrow> 'b outcome) \<Rightarrow> 'a list \<Rightarrow> 'b list outcome" where
  "mapM f [] = Returned []"
| "mapM f (x # xs) =
     (case f x of
        Threw \<Rightarrow> Threw
      | Returned y \<Rightarrow> (case mapM f xs of Threw \<Rightarrow> Threw | Returned ys \<Rightarrow> Returned (y # ys)))"

text \<open>Reading a property of \<open>v\<close>, which may be \<^verbatim>\<open>null\<close> or \<^verbatim>\<open>undefined\<close>.\<close>

fun deref :: "'a option \<Rightarrow> 'a outcome" where
  "deref None = Threw"
| "deref (Some v) = Returned v"

text \<open>Sequencing: an exception of the first step skips the second.\<close>

definition andThen :: "'a outcome \<Rightarrow> ('a \<Rightarrow> 'b outcome) \<Rightarrow> 'b outcome" where
  "andThen m f = (case m of Threw \<Rightarrow> Threw | Returned a \<Rightarrow> f a)"

section \<open>The name normalizer\<close>

text \<open>
  \<^verbatim>\<open>(word) => word[0].toLocaleUpperCase().concat(word.substring(1))\<close>:
  \<^verbatim>\<open>word[0]\<close> of the empty string is \<^verbatim>\<open>undefined\<close>, and the method call on it throws.
\<close>

fun capitalize :: "'z platform_scheme \<Rightarrow> js_string \<Rightarrow> js_string outcome" where
  "capitalize pf [] = Threw"
| "capitalize pf (c # cs) = Returned (toLocaleUpperCase pf c @ cs)"

text \<open>
  \<^verbatim>\<open>(name) => name.trim().split(' ').map(...).join(' ')\<close>, the transform of the
  \<open>name\<close> field in both schema variants.
\<close>

definition nameTransform :: "'z platform_scheme \<Rightarrow> js_string \<Rightarrow> js_string outcome" where
  "nameTransform pf name_raw =
     (case mapM (capitalize pf) (split SPACE (trim name_raw)) of
        Threw \<Rightarrow> Threw
      | Returned ws \<Rightarrow> Returned (join [SPACE] ws))"

section \<open>The validation library, as the schemas use it\<close>

text \<open>
  The schemas are built from the combinators of the validation library. A schema is
  read as a parser: given the path of the value and the value, it returns the issues it
  adds and the value it hands on, or it throws.

  The form library runs the schema through \<^verbatim>\<open>zodResolver(schema)\<close> without options,
  which awaits \<^verbatim>\<open>schema.parseAsync\<close>. In that mode an object calls the parsers of all
  its keys in declaration order before anything is awaited: the checks of a string, the
  length check of an array and then its elements, and the checks of a number add their
  issues at once, in that order. A refinement or a transform runs its callback later,
  after the parse it wraps has resolved, so an issue of a refinement is added after the
  issues that all keys add at once. A parse therefore returns two lists: \<open>issues\<close>,
  added at once, and \<open>deferred\<close>, added by refinements; the error of the whole parse
  lists \<open>issues\<close> and then \<open>deferred\<close>. (In each of the two schemas only one key
  has refinements, so the order among the deferred issues of different keys does not
  arise; an object lists them in key order.)

  The literal messages of the source are named by the error kinds of the
  specification:
  \<^item> \<open>EmptyField\<close>: the messages of \<^verbatim>\<open>nonempty\<close> (name, e-mail, password, title);
  \<^item> \<open>InvalidFormat\<close>: the message of \<^verbatim>\<open>email\<close>;
  \<^item> \<open>NotGmail\<close>: the message of the \<^verbatim>\<open>endsWith('gmail.com')\<close> refinement;
  \<^item> \<open>TooShort\<close>: the message of \<^verbatim>\<open>min(6)\<close> on the password;
  \<^item> \<open>Missing\<close>, \<open>TooLarge\<close>, \<open>UnsupportedType\<close>: the three avatar refinements;
  \<^item> \<open>TooFew\<close>: the message of \<^verbatim>\<open>min(2)\<close> on the technologies;
  \<^item> \<open>NotANumber\<close>, \<open>TooSmall\<close>, \<open>TooBig\<close>: the library's default messages for
    \<^verbatim>\<open>z.coerce.number().min(1).max(100)\<close>.
\<close>

datatype reason =
    EmptyField | InvalidFormat | NotGmail | TooShort
  | Missing | TooLarge | UnsupportedType
  | TooFew | NotANumber | TooSmall | TooBig

datatype path_elem = Key string | Index nat

datatype issue = Issue (path: "path_elem list") (message: reason)

text \<open>
  What a parse returns: the issues it added at once, the issues its refinements added,
  and the value it hands on. The parse is valid when it added no issue. \<open>data\<close> is
  \<open>None\<close> when the parse was aborted, or when a transform was skipped because its
  input was not valid.
\<close>

datatype 'a parse_return =
  ParseReturn (issues: "issue list") (deferred: "issue list") (data: "'a option")

type_synonym ('i, 'o) schema = "path_elem list \<Rightarrow> 'i \<Rightarrow> 'o parse_return outcome"

subsection \<open>Strings\<close>

text \<open>
  A check of \<^verbatim>\<open>z.string()\<close> returns the issues it adds and the string the next check
  sees. All checks run: a failed check does not stop the later ones.
\<close>

type_synonym string_check = "path_elem list \<Rightarrow> js_string \<Rightarrow> issue list \<times> js_string"

definition z_min :: "nat \<Rightarrow> reason \<Rightarrow> string_check" where
  "z_min n m p s = (if length s < n then [Issue p m] else [], s)"

definition nonempty :: "reason \<Rightarrow> string_check" where
  "nonempty m = z_min 1 m"

text \<open>\<^verbatim>\<open>.email(message)\<close>, with the pattern of the library.\<close>

definition z_email :: "'z platform_scheme \<Rightarrow> reason \<Rightarrow> string_check" where
  "z_email pf m p s = (if isEmail pf s then [] else [Issue p m], s)"

text \<open>\<^verbatim>\<open>.toLowerCase()\<close>: the later checks and the result see the lower-cased string.\<close>

definition z_toLowerCase :: "'z platform_scheme \<Rightarrow> string_check" where
  "z_toLowerCase pf p s = ([], toLowerCase pf s)"

fun run_checks :: "string_check list \<Rightarrow> path_elem list \<Rightarrow> js_string \<Rightarrow> issue list \<times> js_string" where
  "run_checks [] p s = ([], s)"
| "run_checks (c # cs) p s =
     (case c p s of (is1, s1) \<Rightarrow>
        (case run_checks cs p s1 of (is2, s2) \<Rightarrow> (is1 @ is2, s2)))"

definition z_string :: "string_check list \<Rightarrow> (js_string, js_string) schema" where
  "z_string cs p s =
     (case run_checks cs p s of (is, s') \<Rightarrow> Returned (ParseReturn is [] (Some s')))"

subsection \<open>Refinements and transforms\<close>

text \<open>
  \<^verbatim>\<open>.refine(check, message)\<close> runs \<open>check\<close> on the value of the inner schema also when
  the inner schema has already added issues; only an aborted parse skips it. Its issue
  is a deferred one.
\<close>

definition refine :: "('o \<Rightarrow> bool outcome) \<Rightarrow> reason \<Rightarrow> ('i, 'o) schema \<Rightarrow> ('i, 'o) schema" where
  "refine check m inner p x =
     (case inner p x of
        Threw \<Rightarrow> Threw
      | Returned r \<Rightarrow>
          (case data r of
             None \<Rightarrow> Returned r
           | Some v \<Rightarrow>
               (case check v of
                  Threw \<Rightarrow> Threw
                | Returned ok \<Rightarrow>
                    Returned (ParseReturn (issues r)
                      (deferred r @ (if ok then [] else [Issue p m])) (Some v)))))"

text \<open>\<^verbatim>\<open>.transform(f)\<close> runs \<open>f\<close> only on a valid value of the inner schema.\<close>

definition transform :: "('o \<Rightarrow> 'p outcome) \<Rightarrow> ('i, 'o) schema \<Rightarrow> ('i, 'p) schema" where
  "transform f inner p x =
     (case inner p x of
        Threw \<Rightarrow> Threw
      | Returned r \<Rightarrow>
          (case (issues r @ deferred r, data r) of
             ([], Some v) \<Rightarrow>
               (case f v of
                  Threw \<Rightarrow> Threw
                | Returned w \<Rightarrow> Returned (ParseReturn [] [] (Some w)))
           | _ \<Rightarrow> Returned (ParseReturn (issues r) (deferred r) None)))"

subsection \<open>Arrays\<close>

fun parse_items :: "('i, 'o) schema \<Rightarrow> path_elem list \<Rightarrow> nat \<Rightarrow> 'i list \<Rightarrow> 'o parse_return list outcome" where
  "parse_items elem p i [] = Returned []"
| "parse_items elem p i (x # xs) =
     (case elem (p @ [Index i]) x of
        Threw \<Rightarrow> Threw
      | Returned r \<Rightarrow>
          (case parse_items elem p (Suc i) xs of
             Threw \<Rightarrow> Threw
           | Returned rs \<Rightarrow> Returned (r # rs)))"

text \<open>\<^verbatim>\<open>z.array(elem).min(n, message)\<close>: the length check, then the elements.\<close>

definition z_array_min :: "nat \<Rightarrow> reason \<Rightarrow> ('i, 'o) schema \<Rightarrow> ('i list, 'o list) schema" where
  "z_array_min n m elem p xs =
     (case parse_items elem p 0 xs of
        Threw \<Rightarrow> Threw
      | Returned rs \<Rightarrow>
          Returned (ParseReturn
            ((if length xs < n then [Issue p m] else []) @ concat (map issues rs))
            (concat (map deferred rs))
            (those (map data rs))))"

subsection \<open>Numbers\<close>

text \<open>
  A JavaScript number is \<^verbatim>\<open>NaN\<close>, an infinity, or a finite value, which is a
  rational; the comparisons of the schema on finite values are those of the rationals.
\<close>

datatype js_number = NaN | NegInfinity | Finite rat | PosInfinity

fun js_less :: "js_number \<Rightarrow> js_number \<Rightarrow> bool" where
  "js_less NaN _ = False"
| "js_less _ NaN = False"
| "js_less _ NegInfinity = False"
| "js_less NegInfinity _ = True"
| "js_less PosInfinity _ = False"
| "js_less (Finite a) PosInfinity = True"
| "js_less (Finite a) (Finite b) = (a < b)"

text \<open>
  \<^verbatim>\<open>z.coerce.number().min(lo).max(hi)\<close>, on the number \<^verbatim>\<open>Number(raw)\<close> the coercion
  has made of the raw value. \<^verbatim>\<open>NaN\<close> is not a number for the library: the parse is
  aborted with one issue and the bounds are not checked. Otherwise both bounds are
  checked.
\<close>

definition z_number_min_max :: "rat \<Rightarrow> rat \<Rightarrow> (js_number, js_number) schema" where
  "z_number_min_max lo hi p n =
     (if n = NaN then Returned (ParseReturn [Issue p NotANumber] [] None)
      else Returned (ParseReturn
             ((if js_less n (Finite lo) then [Issue p TooSmall] else []) @
              (if js_less (Finite hi) n then [Issue p TooBig] else []))
             []
             (Some n)))"

subsection \<open>The result of a parse\<close>

datatype 'p validation_result = Valid 'p | Invalid "issue list"

text \<open>
  The parse of a schema at the root path, as \<^verbatim>\<open>zodResolver(schema)\<close> awaits it: no
  issue means success with the parsed value; any issue means failure with the issues
  of the validation error, those added at once before the deferred ones; an exception
  of a callback is not a validation error and is rethrown. (The library itself throws
  when a parse fails without an issue.) For display, the resolver afterwards keeps the
  first message per field; that step is not part of the model.
\<close>

definition safeParseAsync :: "('i, 'o) schema \<Rightarrow> 'i \<Rightarrow> 'o validation_result outcome" where
  "safeParseAsync schema x =
     (case schema [] x of
        Threw \<Rightarrow> Threw
      | Returned r \<Rightarrow>
          (case (issues r @ deferred r, data r) of
             ([], Some v) \<Rightarrow> Returned (Valid v)
           | ([], None) \<Rightarrow> Threw
           | _ \<Rightarrow> Returned (Invalid (issues r @ deferred r))))"

section \<open>The data of the form\<close>

text \<open>A \<^verbatim>\<open>File\<close> of the browser: its name, its size in bytes, its MIME type.\<close>

record avatar_file =
  file_name :: js_string
  file_size :: nat
  file_type :: js_string

text \<open>\<^verbatim>\<open>FileList.item(i)\<close>: the file at index \<open>i\<close>, or \<^verbatim>\<open>null\<close>.\<close>

definition item :: "'a list \<Rightarrow> nat \<Rightarrow> 'a option" where
  "item files i = (if i < length files then Some (files ! i) else None)"

text \<open>
  A technology of the list. \<open>knowledge\<close> is the number \<^verbatim>\<open>Number(raw)\<close> that
  \<^verbatim>\<open>z.coerce\<close> makes of the raw field: \<open>NaN\<close> when the field is absent or is not
  numeric text. The schema without the \<open>knowledge\<close> key strips it and keeps the title.
\<close>

record tech_title =
  title :: js_string

record tech = tech_title +
  knowledge :: js_number

text \<open>
  The values of the form. The raw input has the \<^verbatim>\<open>FileList\<close> of the file input as
  avatar and the technologies as the fields give them; the parsed data of the schema
  with the avatar rule has a file (\<^verbatim>\<open>list.item(0)\<close>) and titles; the parsed data of
  the schema without it has no avatar key.
\<close>

record ('a, 't) user_form =
  avatar :: 'a
  name :: js_string
  email :: js_string
  password :: js_string
  techs :: "'t list"

type_synonym form_input = "(avatar_file list, tech) user_form"

type_synonym form_data = "(avatar_file option, tech_title) user_form"

type_synonym form_data_App = "(unit, tech) user_form"

section \<open>The schema with the avatar rule\<close>

text \<open>The schema of the source file with the avatar key, \<^verbatim>\<open>src/unnamed/part_000\<close>.\<close>

definition MAX_FILE_SIZE :: nat where
  "MAX_FILE_SIZE = 5 * 1024 * 1024"

definition ACCEPTED_IMAGE_TYPES :: "js_string list" where
  "ACCEPTED_IMAGE_TYPES =
     [utf16 ''image/jpeg'', utf16 ''image/jpg'', utf16 ''image/png'', utf16 ''image/webp'']"

text \<open>\<^verbatim>\<open>z.instanceof(FileList)\<close>: the value of a file input is a \<^verbatim>\<open>FileList\<close>.\<close>

definition z_instanceof_FileList :: "(avatar_file list, avatar_file list) schema" where
  "z_instanceof_FileList p files = Returned (ParseReturn [] [] (Some files))"

text \<open>
  The \<open>avatar\<close> key. The second and third refinement read \<^verbatim>\<open>files.item(0)!.size\<close>
  and \<^verbatim>\<open>files.item(0)!.type\<close>: the \<^verbatim>\<open>!\<close> is erased at run time, and the property
  read throws when \<^verbatim>\<open>item(0)\<close> is \<^verbatim>\<open>null\<close>.
\<close>

definition avatar_schema :: "(avatar_file list, avatar_file option) schema" where
  "avatar_schema =
     transform (\<lambda>list. Returned (item list 0))
       (refine (\<lambda>files. andThen (deref (item files 0))
                   (\<lambda>f. Returned (file_type f \<in> set ACCEPTED_IMAGE_TYPES))) UnsupportedType
         (refine (\<lambda>files. andThen (deref (item files 0))
                     (\<lambda>f. Returned (file_size f \<le> MAX_FILE_SIZE))) TooLarge
           (refine (\<lambda>files. Returned (item files 0 \<noteq> None)) Missing
              z_instanceof_FileList)))"

text \<open>The \<open>name\<close> key, the same in both variants.\<close>

definition name_schema :: "'z platform_scheme \<Rightarrow> (js_string, js_string) schema" where
  "name_schema pf = transform (nameTransform pf) (z_string [nonempty EmptyField])"

definition email_schema :: "'z platform_scheme \<Rightarrow> (js_string, js_string) schema" where
  "email_schema pf =
     z_string [nonempty EmptyField, z_email pf InvalidFormat, z_toLowerCase pf]"

definition password_schema :: "(js_string, js_string) schema" where
  "password_schema = z_string [nonempty EmptyField, z_min 6 TooShort]"

definition tech_schema :: "(tech, tech_title) schema" where
  "tech_schema p t =
     andThen (z_string [nonempty EmptyField] (p @ [Key ''title'']) (title t))
       (\<lambda>r. Returned (ParseReturn (issues r) (deferred r)
               (map_option (\<lambda>s. \<lparr>title = s\<rparr>) (data r))))"

definition techs_schema :: "(tech list, tech_title list) schema" where
  "techs_schema = z_array_min 2 TooFew tech_schema"

text \<open>\<^verbatim>\<open>createUserFormSchema\<close> of the variant with the avatar rule.\<close>

definition createUserFormSchema :: "'z platform_scheme \<Rightarrow> (form_input, form_data) schema" where
  "createUserFormSchema pf p x =
     andThen (avatar_schema (p @ [Key ''avatar'']) (avatar x)) (\<lambda>a.
     andThen (name_schema pf (p @ [Key ''name'']) (name x)) (\<lambda>n.
     andThen (email_schema pf (p @ [Key ''email'']) (email x)) (\<lambda>e.
     andThen (password_schema (p @ [Key ''password'']) (password x)) (\<lambda>pw.
     andThen (techs_schema (p @ [Key ''techs'']) (techs x)) (\<lambda>t.
       Returned (ParseReturn
         (issues a @ issues n @ issues e @ issues pw @ issues t)
         (deferred a @ deferred n @ deferred e @ deferred pw @ deferred t)
         (case (data a, data n, data e, data pw, data t) of
            (Some a', Some n', Some e', Some pw', Some t') \<Rightarrow>
              Some \<lparr>avatar = a', name = n', email = e', password = pw', techs = t'\<rparr>
          | _ \<Rightarrow> None)))))))"

section \<open>The schema without the avatar rule\<close>

text \<open>The schema of \<^verbatim>\<open>src/src/App.tsx\<close>. Its \<open>name\<close> key is \<open>name_schema\<close> above.\<close>

definition email_schema_App :: "'z platform_scheme \<Rightarrow> (js_string, js_string) schema" where
  "email_schema_App pf =
     refine (\<lambda>email. Returned (endsWith email (utf16 ''gmail.com''))) NotGmail
       (z_string [nonempty EmptyField, z_email pf InvalidFormat, z_toLowerCase pf])"

definition password_schema_App :: "(js_string, js_string) schema" where
  "password_schema_App = z_string [z_min 6 TooShort]"

definition tech_schema_App :: "(tech, tech) schema" where
  "tech_schema_App p t =
     andThen (z_string [nonempty EmptyField] (p @ [Key ''title'']) (title t)) (\<lambda>r.
     andThen (z_number_min_max 1 100 (p @ [Key ''knowledge'']) (knowledge t)) (\<lambda>k.
       Returned (ParseReturn
         (issues r @ issues k)
         (deferred r @ deferred k)
         (case (data r, data k) of
            (Some s, Some n) \<Rightarrow> Some \<lparr>title = s, knowledge = n\<rparr>
          | _ \<Rightarrow> None))))"

definition techs_schema_App :: "(tech list, tech list) schema" where
  "techs_schema_App = z_array_min 2 TooFew tech_schema_App"

text \<open>
  \<^verbatim>\<open>createUserFormSchema\<close> of the variant without the avatar rule. An avatar among
  the input values is an unknown key, which the object schema strips.
\<close>

definition createUserFormSchema_App ::
    "'z platform_scheme \<Rightarrow> (('a, tech) user_form, form_data_App) schema" where
  "createUserFormSchema_App pf p x =
     andThen (name_schema pf (p @ [Key ''name'']) (name x)) (\<lambda>n.
     andThen (email_schema_App pf (p @ [Key ''email'']) (email x)) (\<lambda>e.
     andThen (password_schema_App (p @ [Key ''password'']) (password x)) (\<lambda>pw.
     andThen (techs_schema_App (p @ [Key ''techs'']) (techs x)) (\<lambda>t.
       Returned (ParseReturn
         (issues n @ issues e @ issues pw @ issues t)
         (deferred n @ deferred e @ deferred pw @ deferred t)
         (case (data n, data e, data pw, data t) of
            (Some n', Some e', Some pw', Some t') \<Rightarrow>
              Some \<lparr>avatar = (), name = n', email = e', password = pw', techs = t'\<rparr>
          | _ \<Rightarrow> None))))))"

section \<open>The password strength signal\<close>

text \<open>
  \<^verbatim>\<open>new RegExp('(?=.*[a-z])(?=.*[A-Z])(?=.*[0-9])(?=.*[^A-Za-z0-9])(?=.{8,})').test(userPassword)\<close>.
  The pattern has no anchor, so \<^verbatim>\<open>test\<close> tries every start position. At a start
  position each group looks ahead; \<^verbatim>\<open>.\<close> matches every code unit but a line
  terminator.
\<close>

definition isLower :: "nat \<Rightarrow> bool" where
  "isLower c = (97 \<le> c \<and> c \<le> 122)"

definition isUpper :: "nat \<Rightarrow> bool" where
  "isUpper c = (65 \<le> c \<and> c \<le> 90)"

definition isDigit :: "nat \<Rightarrow> bool" where
  "isDigit c = (48 \<le> c \<and> c \<le> 57)"

definition isSymbol :: "nat \<Rightarrow> bool" where
  "isSymbol c = (\<not> isUpper c \<and> \<not> isLower c \<and> \<not> isDigit c)"

definition dot :: "nat \<Rightarrow> bool" where
  "dot c = (\<not> isLineTerminator c)"

text \<open>\<^verbatim>\<open>(?=.*[class])\<close> at the start of \<open>s\<close>.\<close>

fun ahead :: "(nat \<Rightarrow> bool) \<Rightarrow> js_string \<Rightarrow> bool" where
  "ahead cls [] = False"
| "ahead cls (c # cs) = (cls c \<or> (dot c \<and> ahead cls cs))"

definition lookaheads :: "js_string \<Rightarrow> bool" where
  "lookaheads s =
     (ahead isLower s \<and> ahead isUpper s \<and> ahead isDigit s \<and> ahead isSymbol s \<and>
      8 \<le> length (takeWhile dot s))"

fun regexp_test :: "js_string \<Rightarrow> bool" where
  "regexp_test [] = lookaheads []"
| "regexp_test (c # cs) = (lookaheads (c # cs) \<or> regexp_test cs)"

definition isPasswordStrong :: "js_string \<Rightarrow> bool" where
  "isPasswordStrong userPassword = regexp_test userPassword"

section \<open>Submission\<close>

text \<open>
  What \<^verbatim>\<open>await supabse.storage.from('test').upload(...)\<close> gives: the storage client
  resolves to \<^verbatim>\<open>{data, error}\<close>, with \<^verbatim>\<open>error\<close> set when the upload failed, or the
  call throws.
\<close>

datatype upload_result = Uploaded | UploadError string | UploadThrew

text \<open>
  The \<^verbatim>\<open>output\<close> state is the empty string or the text
  \<^verbatim>\<open>JSON.stringify(data, null, 2)\<close>, which is kept symbolic.
\<close>

datatype 'p json_text = EmptyText | JSON_stringify 'p

record 'p app_state =
  output_text :: "'p json_text"

text \<open>
  \<^verbatim>\<open>createUser\<close> of the variant with the avatar rule: the upload is awaited, its
  \<^verbatim>\<open>error\<close> is bound and not read, and the output is set.
\<close>

definition createUser :: "upload_result \<Rightarrow> form_data \<Rightarrow> form_data app_state \<Rightarrow> form_data app_state outcome" where
  "createUser upload d s =
     (case upload of
        UploadThrew \<Rightarrow> Threw
      | Uploaded \<Rightarrow> Returned (s\<lparr>output_text := JSON_stringify d\<rparr>)
      | UploadError e \<Rightarrow> Returned (s\<lparr>output_text := JSON_stringify d\<rparr>))"

text \<open>
  \<^verbatim>\<open>handleSubmit(createUser)\<close> with the resolver of the schema: the form library has
  the values parsed; on failure the errors go to the form state of the library and the
  handler is not called, on success the handler is called with the parsed data.
\<close>

definition handleSubmit ::
    "'z platform_scheme \<Rightarrow> upload_result \<Rightarrow> form_input \<Rightarrow> form_data app_state \<Rightarrow> form_data app_state outcome" where
  "handleSubmit pf upload x s =
     (case safeParseAsync (createUserFormSchema pf) x of
        Threw \<Rightarrow> Threw
      | Returned (Invalid es) \<Rightarrow> Returned s
      | Returned (Valid d) \<Rightarrow> createUser upload d s)"

section \<open>Reference definitions\<close>

text \<open>
  The normalized name in the words of the specification, for a trimmed name:
  the first code unit of each word is upper-cased and everything else is left as it
  is, a word being what stands between two space characters. \<open>start\<close> tells whether
  the next code unit begins a word.
\<close>

fun capitalizeWords :: "'z platform_scheme \<Rightarrow> bool \<Rightarrow> js_string \<Rightarrow> js_string" where
  "capitalizeWords pf start [] = []"
| "capitalizeWords pf start (c # cs) =
     (if c = SPACE then c # capitalizeWords pf True cs
      else (if start then toLocaleUpperCase pf c else [c]) @ capitalizeWords pf False cs)"

text \<open>
  One issue per failing rule, in the order in which the awaited parse adds them: name,
  e-mail, password, technologies, titles of the technologies in list order, and last
  the avatar. The rules are those of the schema with the avatar rule, on the raw
  values.
\<close>

definition expected_errors :: "'z platform_scheme \<Rightarrow> form_input \<Rightarrow> issue list" where
  "expected_errors pf x =
     (if name x = [] then [Issue [Key ''name''] EmptyField] else []) @
     (if email x = [] then [Issue [Key ''email''] EmptyField] else []) @
     (if isEmail pf (email x) then [] else [Issue [Key ''email''] InvalidFormat]) @
     (if password x = [] then [Issue [Key ''password''] EmptyField] else []) @
     (if length (password x) < 6 then [Issue [Key ''password''] TooShort] else []) @
     (if length (techs x) < 2 then [Issue [Key ''techs''] TooFew] else []) @
     concat (map (\<lambda>(i, t). if title t = []
                             then [Issue [Key ''techs'', Index i, Key ''title''] EmptyField]
                             else [])
                 (enumerate 0 (techs x))) @
     (case avatar x of
        [] \<Rightarrow> [Issue [Key ''avatar''] Missing]
      | f # _ \<Rightarrow>
          (if MAX_FILE_SIZE < file_size f then [Issue [Key ''avatar''] TooLarge] else []) @
          (if file_type f \<in> set ACCEPTED_IMAGE_TYPES then []
           else [Issue [Key ''avatar''] UnsupportedType]))"

text \<open>The normalized form: the payload of a successful validation.\<close>

definition expected_data :: "'z platform_scheme \<Rightarrow> form_input \<Rightarrow> form_data" where
  "expected_data pf x =
     \<lparr>avatar = item (avatar x) 0,
      name = capitalizeWords pf True (trim (name x)),
      email = toLowerCase pf (email x),
      password = password x,
      techs = map (\<lambda>t. \<lparr>title = title t\<rparr>) (techs x)\<rparr>"

text \<open>Whether a validation succeeded.\<close>

fun is_valid :: "'p validation_result outcome \<Rightarrow> bool" where
  "is_valid (Returned (Valid d)) = True"
| "is_valid _ = False"

text \<open>
  The password strength in the words of the specification: a lowercase letter, an
  uppercase letter, a digit and a symbol (a code unit that is none of these) occur, and
  the length is at least 8.
\<close>

definition strong_by_spec :: "js_string \<Rightarrow> bool" where
  "strong_by_spec pw =
     (list_ex isLower pw \<and> list_ex isUpper pw \<and> list_ex isDigit pw \<and>
      list_ex isSymbol pw \<and> 8 \<le> length pw)"



section \<open>A platform to run the schemas on concrete values\<close>

text \<open>
  The theorems hold for every platform. To run the schemas on concrete values, \<open>host\<close>
  is a platform that agrees with the library and the engine on the values used here:
  \<^item> \<open>emailShape\<close> stands for the pattern of \<^verbatim>\<open>.email()\<close>: one \<^verbatim>\<open>@\<close>, a non-empty
    local part, a domain of at least two non-empty labels separated by dots, and no
    white space;
  \<^item> the case mappings are those of the Unicode tables on the code units below 256
    (Latin-1 text), in a locale without rules of its own; they leave every other code
    unit as it is.
\<close>

definition emailShape :: "js_string \<Rightarrow> bool" where
  "emailShape s =
     (case split 64 s of
        [local_part, domain_part] \<Rightarrow>
          local_part \<noteq> [] \<and> \<not> list_ex isWhiteSpace s \<and>
          2 \<le> length (split 46 domain_part) \<and>
          \<not> list_ex (\<lambda>label. label = []) (split 46 domain_part)
      | _ \<Rightarrow> False)"

definition toUpperCase_latin1 :: "nat \<Rightarrow> js_string" where
  "toUpperCase_latin1 c =
     (if (97 \<le> c \<and> c \<le> 122) \<or> (224 \<le> c \<and> c \<le> 254 \<and> c \<noteq> 247) then [c - 32]
      else if c = 223 then [83, 83]
      else if c = 181 then [924]
      else if c = 255 then [376]
      else [c])"

definition toLowerCase_latin1 :: "js_string \<Rightarrow> js_string" where
  "toLowerCase_latin1 s =
     map (\<lambda>c. if (65 \<le> c \<and> c \<le> 90) \<or> (192 \<le> c \<and> c \<le> 222 \<and> c \<noteq> 215) then c + 32 else c) s"

definition host :: platform where
  "host = \<lparr>isEmail = emailShape, toLocaleUpperCase = toUpperCase_latin1,
           toLowerCase = toLowerCase_latin1\<rparr>"

definition png :: avatar_file where
  "png = \<lparr>file_name = utf16 ''me.png'', file_size = 1000, file_type = utf16 ''image/png''\<rparr>"

definition valid_form :: form_input where
  "valid_form =
     \<lparr>avatar = [png], name = utf16 '' ana paula '', email = utf16 ''USER@GMAIL.COM'',
      password = utf16 ''abc123'',
      techs = [\<lparr>title = utf16 ''React'', knowledge = Finite 50\<rparr>,
               \<lparr>title = utf16 ''Vue'', knowledge = Finite 80\<rparr>]\<rparr>"

definition invalid_form :: form_input where
  "invalid_form =
     \<lparr>avatar = [\<lparr>file_name = utf16 ''me.gif'', file_size = 6000000,
                  file_type = utf16 ''image/gif''\<rparr>],
      name = [], email = [], password = [],
      techs = [\<lparr>title = [], knowledge = Finite 0\<rparr>]\<rparr>"

text \<open>The state of the component before the first submit.\<close>

definition initial_state :: "form_data app_state" where
  "initial_state = \<lparr>output_text = EmptyText\<rparr>"

section \<open>Strings: splitting, joining, trimming\<close>

lemma split_not_Nil: "split sep s \<noteq> []"
  by (induction s) (auto split: list.splits)

lemma join_Cons_Cons: "join sep ((c # w) # ws) = c # join sep (w # ws)"
  by (cases ws) simp_all

lemma join_append_Cons: "join sep ((u @ w) # ws) = u @ join sep (w # ws)"
  by (cases ws) simp_all












section \<open>The name normalizer: what it returns\<close>

lemma mapM_capitalize_Returned:
  "[] \<notin> set ws \<Longrightarrow>
     mapM (capitalize pf) ws = Returned (map (\<lambda>w. toLocaleUpperCase pf (hd w) @ tl w) ws)"
proof (induction ws)
  case Nil
  then show ?case by simp
next
  case (Cons w ws)
  then show ?case by (cases w) auto
qed

lemma mapM_capitalize_Threw: "[] \<in> set ws \<Longrightarrow> mapM (capitalize pf) ws = Threw"
  by (induction ws) (auto split: outcome.splits)

lemma nameTransform_cases:
  "nameTransform pf x =
     (if [] \<in> set (split SPACE (trim x)) then Threw
      else Returned (join [SPACE]
             (map (\<lambda>w. toLocaleUpperCase pf (hd w) @ tl w) (split SPACE (trim x)))))"
proof (cases "[] \<in> set (split SPACE (trim x))")
  case True
  then show ?thesis
    by (simp add: nameTransform_def mapM_capitalize_Threw)
next
  case False
  then show ?thesis
    by (simp add: nameTransform_def mapM_capitalize_Returned)
qed

lemma nameTransform_Threw_iff:
  "nameTransform pf x = Threw \<longleftrightarrow> [] \<in> set (split SPACE (trim x))"
  by (simp add: nameTransform_cases)


lemma join_capitalizeWords:
  "[] \<notin> set (tl (split SPACE t)) \<Longrightarrow> (b \<longrightarrow> hd (split SPACE t) \<noteq> []) \<Longrightarrow>
   join [SPACE] ((if b then toLocaleUpperCase pf (hd (hd (split SPACE t))) @ tl (hd (split SPACE t))
                else hd (split SPACE t)) #
               map (\<lambda>w. toLocaleUpperCase pf (hd w) @ tl w) (tl (split SPACE t)))
   = capitalizeWords pf b t"
proof (induction t arbitrary: b)
  case Nil
  then show ?case by simp
next
  case (Cons c cs)
  obtain w ws where sp: "split SPACE cs = w # ws"
    using split_not_Nil[of SPACE cs] by (cases "split SPACE cs") auto
  show ?case
  proof (cases "c = SPACE")
    case True
    with Cons.prems sp have b: "\<not> b" and ne: "w \<noteq> []" "[] \<notin> set ws" by auto
    have "join [SPACE] (map (\<lambda>w. toLocaleUpperCase pf (hd w) @ tl w) (w # ws))
        = capitalizeWords pf True cs"
      using Cons.IH[of True] sp ne by simp
    then show ?thesis using True b sp by simp
  next
    case False
    with Cons.prems sp have ne: "[] \<notin> set ws" by auto
    have "join [SPACE] (w # map (\<lambda>w. toLocaleUpperCase pf (hd w) @ tl w) ws)
        = capitalizeWords pf False cs"
      using Cons.IH[of False] sp ne by simp
    then show ?thesis using False sp by (simp add: join_Cons_Cons join_append_Cons)
  qed
qed

lemma nameTransform_capitalizeWords:
  assumes "[] \<notin> set (split SPACE (trim x))"
  shows "nameTransform pf x = Returned (capitalizeWords pf True (trim x))"
proof -
  let ?ws = "split SPACE (trim x)"
  let ?cap = "\<lambda>w. toLocaleUpperCase pf (hd w) @ tl w"
  have ws: "?ws \<noteq> []" by (rule split_not_Nil)
  then have "hd ?ws \<in> set ?ws" "set (tl ?ws) \<subseteq> set ?ws"
    by (auto simp: list.set_sel)
  with assms have "hd ?ws \<noteq> []" "[] \<notin> set (tl ?ws)" by auto
  then have "join [SPACE] (?cap (hd ?ws) # map ?cap (tl ?ws)) = capitalizeWords pf True (trim x)"
    using join_capitalizeWords[of "trim x" True pf] by simp
  moreover have "map ?cap ?ws = ?cap (hd ?ws) # map ?cap (tl ?ws)"
    using ws by (cases ?ws) auto
  ultimately show ?thesis using assms by (simp add: nameTransform_cases)
qed


section \<open>The fields of the schemas: what each parse returns\<close>

lemma name_schema_cases:
  "name_schema pf p n =
     (if n = [] then Returned (ParseReturn [Issue p EmptyField] [] None)
      else (case nameTransform pf n of
              Threw \<Rightarrow> Threw
            | Returned y \<Rightarrow> Returned (ParseReturn [] [] (Some y))))"
  by (simp add: name_schema_def transform_def z_string_def nonempty_def z_min_def
      split: outcome.splits)

lemma email_schema_cases:
  "email_schema pf p s =
     Returned (ParseReturn
       ((if s = [] then [Issue p EmptyField] else []) @
        (if isEmail pf s then [] else [Issue p InvalidFormat]))
       []
       (Some (toLowerCase pf s)))"
  by (simp add: email_schema_def z_string_def nonempty_def z_min_def z_email_def z_toLowerCase_def)

lemma email_schema_App_cases:
  "email_schema_App pf p s =
     Returned (ParseReturn
       ((if s = [] then [Issue p EmptyField] else []) @
        (if isEmail pf s then [] else [Issue p InvalidFormat]))
       (if endsWith (toLowerCase pf s) (utf16 ''gmail.com'') then [] else [Issue p NotGmail])
       (Some (toLowerCase pf s)))"
  by (simp add: email_schema_App_def refine_def z_string_def nonempty_def z_min_def z_email_def
      z_toLowerCase_def)

lemma password_schema_cases:
  "password_schema p s =
     Returned (ParseReturn
       ((if s = [] then [Issue p EmptyField] else []) @
        (if length s < 6 then [Issue p TooShort] else []))
       []
       (Some s))"
  by (simp add: password_schema_def z_string_def nonempty_def z_min_def)

lemma password_schema_App_cases:
  "password_schema_App p s =
     Returned (ParseReturn (if length s < 6 then [Issue p TooShort] else []) [] (Some s))"
  by (simp add: password_schema_App_def z_string_def z_min_def)

lemma avatar_schema_Nil: "avatar_schema p [] = Threw"
  by (simp add: avatar_schema_def transform_def refine_def z_instanceof_FileList_def
      item_def andThen_def)

lemma avatar_schema_Cons:
  "avatar_schema p (f # fs) =
     Returned (ParseReturn []
       ((if MAX_FILE_SIZE < file_size f then [Issue p TooLarge] else []) @
        (if file_type f \<in> set ACCEPTED_IMAGE_TYPES then [] else [Issue p UnsupportedType]))
       (if file_size f \<le> MAX_FILE_SIZE \<and> file_type f \<in> set ACCEPTED_IMAGE_TYPES
        then Some (Some f) else None))"
  by (simp add: avatar_schema_def transform_def refine_def z_instanceof_FileList_def
      item_def andThen_def)

lemma tech_schema_cases:
  "tech_schema p t =
     Returned (ParseReturn
       (if title t = [] then [Issue (p @ [Key ''title'']) EmptyField] else [])
       []
       (Some \<lparr>title = title t\<rparr>))"
  by (simp add: tech_schema_def z_string_def nonempty_def z_min_def andThen_def)

lemma parse_items_tech_schema:
  "parse_items tech_schema p i ts =
     Returned (map (\<lambda>(j, t). ParseReturn
                 (if title t = [] then [Issue (p @ [Index j, Key ''title'']) EmptyField] else [])
                 []
                 (Some \<lparr>title = title t\<rparr>))
               (enumerate i ts))"
  by (induction ts arbitrary: i) (simp_all add: tech_schema_cases)

lemma techs_schema_cases:
  "techs_schema p ts =
     Returned (ParseReturn
       ((if length ts < 2 then [Issue p TooFew] else []) @
        concat (map (\<lambda>(i, t). if title t = []
                                then [Issue (p @ [Index i, Key ''title'']) EmptyField] else [])
                    (enumerate 0 ts)))
       []
       (Some (map (\<lambda>t. \<lparr>title = title t\<rparr>) ts)))"
proof -
  have 1: "map (issues \<circ> (\<lambda>(j, t). ParseReturn
                 (if title t = [] then [Issue (p @ [Index j, Key ''title'']) EmptyField] else [])
                 []
                 (Some \<lparr>title = title t\<rparr>))) xs
        = map (\<lambda>(i, t). if title t = []
                                then [Issue (p @ [Index i, Key ''title'']) EmptyField] else []) xs" for xs
    by (induction xs) auto
  have 2: "those (map (data \<circ> (\<lambda>(j, t). ParseReturn
                 (if title t = [] then [Issue (p @ [Index j, Key ''title'']) EmptyField] else [])
                 []
                 (Some \<lparr>title = title t\<rparr>))) (enumerate i ts))
        = Some (map (\<lambda>t. \<lparr>title = title t\<rparr>) ts)" for i
    by (induction ts arbitrary: i) auto
  have 3: "concat (map (deferred \<circ> (\<lambda>(j, t). ParseReturn
                 (if title t = [] then [Issue (p @ [Index j, Key ''title'']) EmptyField] else [])
                 []
                 (Some \<lparr>title = title t\<rparr>))) xs) = []" for xs
    by (induction xs) auto
  show ?thesis
    by (simp add: techs_schema_def z_array_min_def parse_items_tech_schema 1 2 3)
qed

lemma techs_schema_root:
  "techs_schema [Key ''techs''] ts =
     Returned (ParseReturn
       ((if length ts < 2 then [Issue [Key ''techs''] TooFew] else []) @
        concat (map (\<lambda>(i, t). if title t = []
                                then [Issue [Key ''techs'', Index i, Key ''title''] EmptyField] else [])
                    (enumerate 0 ts)))
       []
       (Some (map (\<lambda>t. \<lparr>title = title t\<rparr>) ts)))"
  by (simp add: techs_schema_cases cong: if_cong)

lemma tech_schema_App_cases:
  "tech_schema_App p t =
     Returned (ParseReturn
       ((if title t = [] then [Issue (p @ [Key ''title'']) EmptyField] else []) @
        (if knowledge t = NaN then [Issue (p @ [Key ''knowledge'']) NotANumber]
         else (if js_less (knowledge t) (Finite 1) then [Issue (p @ [Key ''knowledge'']) TooSmall] else []) @
              (if js_less (Finite 100) (knowledge t) then [Issue (p @ [Key ''knowledge'']) TooBig] else [])))
       []
       (if knowledge t = NaN then None else Some t))"
  by (simp add: tech_schema_App_def z_number_min_max_def z_string_def nonempty_def z_min_def andThen_def)

section \<open>The parse of the schema with the avatar rule\<close>

lemma safeParseAsync_Returned:
  assumes "schema [] x = Returned (ParseReturn es ds d)" and "es @ ds = [] \<Longrightarrow> d = Some v"
  shows "safeParseAsync schema x = Returned (if es @ ds = [] then Valid v else Invalid (es @ ds))"
  using assms by (cases "es @ ds") (simp_all add: safeParseAsync_def)

lemma safeParseAsync_createUserFormSchema:
  "safeParseAsync (createUserFormSchema pf) x =
     (if avatar x = [] \<or> (name x \<noteq> [] \<and> [] \<in> set (split SPACE (trim (name x)))) then Threw
      else if expected_errors pf x = [] then Returned (Valid (expected_data pf x))
      else Returned (Invalid (expected_errors pf x)))"
proof (cases "avatar x")
  case Nil
  then show ?thesis
    by (simp add: safeParseAsync_def createUserFormSchema_def andThen_def avatar_schema_Nil)
next
  case (Cons f fs)
  define A where "A = (if MAX_FILE_SIZE < file_size f then [Issue [Key ''avatar''] TooLarge] else []) @
          (if file_type f \<in> set ACCEPTED_IMAGE_TYPES then []
           else [Issue [Key ''avatar''] UnsupportedType])"
  define N where "N = (if name x = [] then [Issue [Key ''name''] EmptyField] else [])"
  define E where "E = (if email x = [] then [Issue [Key ''email''] EmptyField] else []) @
     (if isEmail pf (email x) then [] else [Issue [Key ''email''] InvalidFormat])"
  define P where "P = (if password x = [] then [Issue [Key ''password''] EmptyField] else []) @
     (if length (password x) < 6 then [Issue [Key ''password''] TooShort] else [])"
  define T where "T = (if length (techs x) < 2 then [Issue [Key ''techs''] TooFew] else []) @
     concat (map (\<lambda>(i, t). if title t = []
                             then [Issue [Key ''techs'', Index i, Key ''title''] EmptyField]
                             else [])
                 (enumerate 0 (techs x)))"
  have ee: "expected_errors pf x = N @ E @ P @ T @ A"
    using Cons by (simp add: expected_errors_def A_def N_def E_def P_def T_def)
  have a: "avatar_schema [Key ''avatar''] (avatar x) =
      Returned (ParseReturn [] A (if A = [] then Some (Some f) else None))"
    using Cons avatar_schema_Cons[of "[Key ''avatar'']" f fs] by (auto simp: A_def)
  have e: "email_schema pf [Key ''email''] (email x) =
      Returned (ParseReturn E [] (Some (toLowerCase pf (email x))))"
    by (simp add: email_schema_cases E_def)
  have p: "password_schema [Key ''password''] (password x) =
      Returned (ParseReturn P [] (Some (password x)))"
    by (simp add: password_schema_cases P_def)
  have t: "techs_schema [Key ''techs''] (techs x) =
      Returned (ParseReturn T [] (Some (map (\<lambda>t. \<lparr>title = title t\<rparr>) (techs x))))"
    by (simp only: techs_schema_root T_def)
  show ?thesis
  proof (cases "name x \<noteq> [] \<and> [] \<in> set (split SPACE (trim (name x)))")
    case True
    then have "name_schema pf [Key ''name''] (name x) = Threw"
      by (simp add: name_schema_cases nameTransform_cases)
    then show ?thesis
      using True by (simp add: safeParseAsync_def createUserFormSchema_def andThen_def a)
  next
    case False
    have n: "name_schema pf [Key ''name''] (name x) =
      Returned (ParseReturn N []
        (if N = [] then Some (capitalizeWords pf True (trim (name x))) else None))"
    proof (cases "name x = []")
      case True
      then show ?thesis by (simp add: name_schema_cases N_def)
    next
      case ne: False
      with False have "nameTransform pf (name x) = Returned (capitalizeWords pf True (trim (name x)))"
        by (simp add: nameTransform_capitalizeWords)
      with ne show ?thesis by (simp add: name_schema_cases N_def)
    qed
    define D where "D = (case (if A = [] then Some (Some f) else None,
                if N = [] then Some (capitalizeWords pf True (trim (name x))) else None,
                Some (toLowerCase pf (email x)), Some (password x),
                Some (map (\<lambda>t. \<lparr>title = title t\<rparr>) (techs x))) of
            (Some a', Some n', Some e', Some pw', Some t') \<Rightarrow>
              Some \<lparr>avatar = a', name = n', email = e', password = pw', techs = t'\<rparr>
          | _ \<Rightarrow> None)"
    have s: "createUserFormSchema pf [] x = Returned (ParseReturn (N @ E @ P @ T) A D)"
      by (simp add: createUserFormSchema_def andThen_def a n e p t D_def)
    have "safeParseAsync (createUserFormSchema pf) x =
        Returned (if (N @ E @ P @ T) @ A = [] then Valid (expected_data pf x)
                  else Invalid ((N @ E @ P @ T) @ A))"
    proof (rule safeParseAsync_Returned[where schema="createUserFormSchema pf" and x=x, OF s])
      assume "(N @ E @ P @ T) @ A = []"
      then have "A = []" "N = []" by simp_all
      then show "D = Some (expected_data pf x)"
        using Cons by (simp add: D_def expected_data_def item_def)
    qed
    then show ?thesis using False Cons by (simp add: ee)
  qed
qed

lemma safeParseAsync_Threw_iff:
  "safeParseAsync (createUserFormSchema pf) x = Threw \<longleftrightarrow>
     avatar x = [] \<or> (name x \<noteq> [] \<and> [] \<in> set (split SPACE (trim (name x))))"
  by (simp add: safeParseAsync_createUserFormSchema)

section \<open>Evaluation on concrete values\<close>

text \<open>The definitions that evaluate the schemas on concrete values.\<close>

lemmas ev = valid_form_def png_def invalid_form_def host_def emailShape_def utf16_def
  MAX_FILE_SIZE_def ACCEPTED_IMAGE_TYPES_def trim_def isWhiteSpace_def isLineTerminator_def
  toUpperCase_latin1_def toLowerCase_latin1_def endsWith_def




section \<open>Claims about the name and e-mail normalizers\<close>

text \<open>
  C2, as amended. For a name whose trimmed value has a non-empty piece between any
  two space characters (the trimmed value is not empty and has no two adjacent
  spaces), the transform returns the trimmed value with the first code unit of each
  piece replaced by its upper-casing by the engine, and every other code unit, the
  single spaces included, as it was; the \<open>name\<close> field then parses without an issue
  to that value. A word is what stands between two space characters: other white space
  does not separate words.
\<close>

theorem C2_name_normalizer:
  "[] \<notin> set (split SPACE (trim x)) \<Longrightarrow>
     nameTransform pf x = Returned (capitalizeWords pf True (trim x)) \<and>
     name_schema pf p x = Returned (ParseReturn [] [] (Some (capitalizeWords pf True (trim x))))"
proof -
  assume a: "[] \<notin> set (split SPACE (trim x))"
  then have t: "nameTransform pf x = Returned (capitalizeWords pf True (trim x))"
    by (rule nameTransform_capitalizeWords)
  have "x \<noteq> []"
  proof
    assume "x = []"
    then have "split SPACE (trim x) = [[]]" by (simp add: trim_def)
    with a show False by simp
  qed
  with t show ?thesis by (simp add: name_schema_cases)
qed

theorem C2_name_normalizer_witness:
  "[] \<notin> set (split SPACE (trim (utf16 '' ana paula ''))) \<and>
   nameTransform host (utf16 '' ana paula '') = Returned (utf16 ''Ana Paula'') \<and>
   name_schema host [Key ''name''] (utf16 '' ana paula '')
     = Returned (ParseReturn [] [] (Some (utf16 ''Ana Paula'')))"
proof -
  have h: "[] \<notin> set (split SPACE (trim (utf16 '' ana paula '')))"
    by (simp add: ev)
  have c: "capitalizeWords host True (trim (utf16 '' ana paula '')) = utf16 ''Ana Paula''"
    by (simp add: ev)
  show ?thesis
    using h C2_name_normalizer[OF h, of host "[Key ''name'']"] unfolding c by simp
qed

text \<open>
  C2 as stated fails: on \<open>" ana  paula "\<close> the piece between the two adjacent spaces is
  empty and the transform throws instead of returning \<open>"Ana Paula"\<close>; and a TAB does
  not separate words, so the letter after it stays in lower case.
\<close>

theorem C2_counterexample:
  "nameTransform host (utf16 '' ana  paula '') = Threw \<and>
   nameTransform host (utf16 ''ana'' @ [9] @ utf16 ''paula'')
     = Returned (utf16 ''Ana'' @ [9] @ utf16 ''paula'')"
  by (simp add: nameTransform_cases ev)



section \<open>Claims about the aggregate validator\<close>

text \<open>
  C1, as amended. For every form input with an avatar file present and a name that is
  empty or whose trimmed value has a non-empty piece between any two spaces, the parse
  that the resolver awaits returns \<open>Valid\<close> with the normalized form when no rule
  fails, and otherwise \<open>Invalid\<close> with exactly one issue per failing rule, from all
  fields, in the order name, e-mail (empty, format), password (empty, too short),
  technologies (too few), the empty titles in list order, and last the avatar (too
  large, unsupported type). The rules of name and title are on the raw value: it must
  not be the empty string.
\<close>

theorem C1_aggregate_validator:
  "avatar x \<noteq> [] \<Longrightarrow>
   name x = [] \<or> [] \<notin> set (split SPACE (trim (name x))) \<Longrightarrow>
   safeParseAsync (createUserFormSchema pf) x =
     Returned (if expected_errors pf x = [] then Valid (expected_data pf x)
               else Invalid (expected_errors pf x))"
  by (auto simp: safeParseAsync_createUserFormSchema)

theorem C1_aggregate_validator_witness:
  "avatar valid_form \<noteq> [] \<and>
   [] \<notin> set (split SPACE (trim (name valid_form))) \<and>
   safeParseAsync (createUserFormSchema host) valid_form =
     Returned (Valid \<lparr>avatar = Some png, name = utf16 ''Ana Paula'',
                      email = utf16 ''user@gmail.com'', password = utf16 ''abc123'',
                      techs = [\<lparr>title = utf16 ''React''\<rparr>, \<lparr>title = utf16 ''Vue''\<rparr>]\<rparr>) \<and>
   avatar invalid_form \<noteq> [] \<and>
   name invalid_form = [] \<and>
   safeParseAsync (createUserFormSchema host) invalid_form =
     Returned (Invalid
       [Issue [Key ''name''] EmptyField,
        Issue [Key ''email''] EmptyField, Issue [Key ''email''] InvalidFormat,
        Issue [Key ''password''] EmptyField, Issue [Key ''password''] TooShort,
        Issue [Key ''techs''] TooFew,
        Issue [Key ''techs'', Index 0, Key ''title''] EmptyField,
        Issue [Key ''avatar''] TooLarge, Issue [Key ''avatar''] UnsupportedType])"
proof -
  have a: "avatar valid_form \<noteq> []" by (simp add: valid_form_def)
  have n: "[] \<notin> set (split SPACE (trim (name valid_form)))"
    by (simp add: ev)
  have e: "expected_errors host valid_form = []"
    by (simp add: expected_errors_def ev)
  have d: "expected_data host valid_form =
      \<lparr>avatar = Some png, name = utf16 ''Ana Paula'',
        email = utf16 ''user@gmail.com'', password = utf16 ''abc123'',
        techs = [\<lparr>title = utf16 ''React''\<rparr>, \<lparr>title = utf16 ''Vue''\<rparr>]\<rparr>"
    by (simp add: expected_data_def item_def ev)
  have a': "avatar invalid_form \<noteq> []" by (simp add: invalid_form_def)
  have n': "name invalid_form = []" by (simp add: invalid_form_def)
  have e': "expected_errors host invalid_form =
       [Issue [Key ''name''] EmptyField,
        Issue [Key ''email''] EmptyField, Issue [Key ''email''] InvalidFormat,
        Issue [Key ''password''] EmptyField, Issue [Key ''password''] TooShort,
        Issue [Key ''techs''] TooFew,
        Issue [Key ''techs'', Index 0, Key ''title''] EmptyField,
        Issue [Key ''avatar''] TooLarge, Issue [Key ''avatar''] UnsupportedType]"
    by (simp add: expected_errors_def ev)
  show ?thesis
    using a n a' n'
      C1_aggregate_validator[of valid_form host]
      C1_aggregate_validator[of invalid_form host]
    by (simp add: e d e')
qed

text \<open>
  C1 as stated fails. The errors are not in declaration order: the avatar errors come
  from refinements, which the awaited parse runs after the checks of all other keys, so
  an empty name is reported before a too large avatar. A title that is a single space,
  whose trimmed value is empty, violates the rule of the specification for a title, yet
  the validation returns \<open>Valid\<close>: the schema checks the raw title. And with every
  field satisfying its rule, the name \<open>" ana  paula "\<close> makes the validation throw
  instead of returning \<open>Valid\<close>.
\<close>

theorem C1_counterexample:
  "safeParseAsync (createUserFormSchema host)
       (valid_form\<lparr>avatar := [png\<lparr>file_size := 6000000\<rparr>], name := []\<rparr>)
     = Returned (Invalid [Issue [Key ''name''] EmptyField, Issue [Key ''avatar''] TooLarge]) \<and>
   safeParseAsync (createUserFormSchema host)
       (valid_form\<lparr>techs := [\<lparr>title = utf16 '' '', knowledge = Finite 50\<rparr>,
                                 \<lparr>title = utf16 ''Vue'', knowledge = Finite 80\<rparr>]\<rparr>)
     = Returned (Valid \<lparr>avatar = Some png, name = utf16 ''Ana Paula'',
                      email = utf16 ''user@gmail.com'', password = utf16 ''abc123'',
                      techs = [\<lparr>title = utf16 '' ''\<rparr>, \<lparr>title = utf16 ''Vue''\<rparr>]\<rparr>) \<and>
   safeParseAsync (createUserFormSchema host) (valid_form\<lparr>name := utf16 '' ana  paula ''\<rparr>) = Threw"
  by (simp add: safeParseAsync_createUserFormSchema expected_errors_def expected_data_def item_def ev)

text \<open>
  C3. The validation does not always return: a name with two adjacent spaces, a name
  of white space only (a space, or a no-break space), and an empty file list each make
  a callback of the schema throw, and the exception leaves the parse and the resolver.
  The name transform is the same in the schema without the avatar rule.
\<close>

theorem C3_validation_throws:
  "safeParseAsync (createUserFormSchema pf) (valid_form\<lparr>name := utf16 ''ana  paula''\<rparr>) = Threw \<and>
   safeParseAsync (createUserFormSchema pf) (valid_form\<lparr>name := utf16 '' ''\<rparr>) = Threw \<and>
   safeParseAsync (createUserFormSchema pf) (valid_form\<lparr>name := [0xA0]\<rparr>) = Threw \<and>
   safeParseAsync (createUserFormSchema pf) (valid_form\<lparr>avatar := []\<rparr>) = Threw \<and>
   safeParseAsync (createUserFormSchema_App pf) (valid_form\<lparr>name := utf16 '' ''\<rparr>) = Threw"
proof -
  have "safeParseAsync (createUserFormSchema_App pf) (valid_form\<lparr>name := utf16 '' ''\<rparr>) = Threw"
    by (simp add: safeParseAsync_def createUserFormSchema_App_def andThen_def
        name_schema_cases nameTransform_cases ev)
  then show ?thesis
    by (simp add: safeParseAsync_Threw_iff ev)
qed

section \<open>Claims about single fields\<close>

text \<open>
  C4. The avatar validator on an empty file list throws in the second refinement
  instead of reporting \<open>Missing\<close>. On a list with a first file it adds \<open>TooLarge\<close>
  exactly when the size exceeds 5,242,880 bytes and \<open>UnsupportedType\<close> exactly when
  the MIME type is not one of the four accepted ones, and never \<open>Missing\<close>; a present
  \<^verbatim>\<open>image/png\<close> file of 6,000,000 bytes gives \<open>Invalid\<close> with \<open>TooLarge\<close> on the avatar.
\<close>

theorem C4_avatar_validator:
  "avatar_schema p [] = Threw \<and>
   avatar_schema p (f # fs) =
     Returned (ParseReturn []
       ((if MAX_FILE_SIZE < file_size f then [Issue p TooLarge] else []) @
        (if file_type f \<in> set ACCEPTED_IMAGE_TYPES then [] else [Issue p UnsupportedType]))
       (if file_size f \<le> MAX_FILE_SIZE \<and> file_type f \<in> set ACCEPTED_IMAGE_TYPES
        then Some (Some f) else None)) \<and>
   MAX_FILE_SIZE = 5242880 \<and>
   safeParseAsync (createUserFormSchema host)
       (valid_form\<lparr>avatar := [\<lparr>file_name = utf16 ''me.png'', file_size = 6000000,
                                  file_type = utf16 ''image/png''\<rparr>]\<rparr>)
     = Returned (Invalid [Issue [Key ''avatar''] TooLarge]) \<and>
   safeParseAsync (createUserFormSchema host) (valid_form\<lparr>avatar := []\<rparr>) = Threw"
  by (simp add: avatar_schema_Nil avatar_schema_Cons safeParseAsync_createUserFormSchema
      expected_errors_def ev)

text \<open>
  C8, as amended. In the schema with the avatar rule the e-mail field adds
  \<open>EmptyField\<close> exactly for the empty string and \<open>InvalidFormat\<close> exactly for a
  string that does not match the e-mail pattern, and nothing else. In the schema without
  the avatar rule it adds, besides these, \<open>NotGmail\<close> exactly when the lower-cased
  value does not end with \<open>gmail.com\<close>. Both hand on the lower-cased value.
\<close>

theorem C8_email_validator:
  "email_schema pf p s =
     Returned (ParseReturn
       ((if s = [] then [Issue p EmptyField] else []) @
        (if isEmail pf s then [] else [Issue p InvalidFormat]))
       []
       (Some (toLowerCase pf s))) \<and>
   email_schema_App pf p s =
     Returned (ParseReturn
       ((if s = [] then [Issue p EmptyField] else []) @
        (if isEmail pf s then [] else [Issue p InvalidFormat]))
       (if endsWith (toLowerCase pf s) (utf16 ''gmail.com'') then [] else [Issue p NotGmail])
       (Some (toLowerCase pf s)))"
  by (simp only: email_schema_cases email_schema_App_cases simp_thms)

text \<open>
  C8 as stated fails in the schema without the avatar rule: a non-empty address of valid
  shape that is not a gmail address is rejected.
\<close>

theorem C8_counterexample:
  "emailShape (utf16 ''user@example.com'') \<and>
   email_schema_App host [Key ''email''] (utf16 ''user@example.com'') =
     Returned (ParseReturn [] [Issue [Key ''email''] NotGmail] (Some (utf16 ''user@example.com''))) \<and>
   email_schema host [Key ''email''] (utf16 ''user@example.com'') =
     Returned (ParseReturn [] [] (Some (utf16 ''user@example.com'')))"
  by (simp add: email_schema_cases email_schema_App_cases ev)

section \<open>The technologies\<close>

lemma short_list: "length ts < 2 \<Longrightarrow> ts = [] \<or> (\<exists>t. ts = [t])"
  by (cases ts; cases "tl ts") auto

lemma techs_schema_TooFew:
  "length ts < 2 \<Longrightarrow> \<exists>r. techs_schema p ts = Returned r \<and> Issue p TooFew \<in> set (issues r)"
  by (simp add: techs_schema_cases)

lemma techs_schema_App_TooFew:
  assumes "length ts < 2"
  shows "\<exists>r. techs_schema_App p ts = Returned r \<and> Issue p TooFew \<in> set (issues r)"
proof -
  from assms consider "ts = []" | t where "ts = [t]"
    using short_list by blast
  then show ?thesis
  proof cases
    case 1
    then show ?thesis by (simp add: techs_schema_App_def z_array_min_def)
  next
    case 2
    then show ?thesis
      by (simp add: techs_schema_App_def z_array_min_def tech_schema_App_cases)
  qed
qed

lemma too_few_techs_cases:
  assumes "length (techs x) < 2"
  shows "safeParseAsync (createUserFormSchema pf) x =
           (if avatar x = [] \<or> (name x \<noteq> [] \<and> [] \<in> set (split SPACE (trim (name x))))
            then Threw else Returned (Invalid (expected_errors pf x)))"
    and "Issue [Key ''techs''] TooFew \<in> set (expected_errors pf x)"
proof -
  show m: "Issue [Key ''techs''] TooFew \<in> set (expected_errors pf x)"
    using assms by (simp add: expected_errors_def)
  then have "expected_errors pf x \<noteq> []" by auto
  then show "safeParseAsync (createUserFormSchema pf) x =
           (if avatar x = [] \<or> (name x \<noteq> [] \<and> [] \<in> set (split SPACE (trim (name x))))
            then Threw else Returned (Invalid (expected_errors pf x)))"
    by (simp add: safeParseAsync_createUserFormSchema)
qed

lemma js_number_in_range:
  "n \<noteq> NaN \<Longrightarrow> \<not> js_less n (Finite 1) \<Longrightarrow> \<not> js_less (Finite 100) n \<Longrightarrow>
     \<exists>k. n = Finite k \<and> 1 \<le> k \<and> k \<le> 100"
  by (cases n) auto

lemma tech_schema_App_valid:
  assumes "tech_schema_App p t = Returned r" and "issues r = []"
  shows "title t \<noteq> [] \<and> (\<exists>k. knowledge t = Finite k \<and> 1 \<le> k \<and> k \<le> 100)"
proof -
  have "title t \<noteq> []" "knowledge t \<noteq> NaN" "\<not> js_less (knowledge t) (Finite 1)"
      "\<not> js_less (Finite 100) (knowledge t)"
    using assms by (auto simp: tech_schema_App_cases split: if_splits)
  then show ?thesis using js_number_in_range by blast
qed

lemma parse_items_App_valid:
  "parse_items tech_schema_App p i ts = Returned rs \<Longrightarrow> concat (map issues rs) = [] \<Longrightarrow>
   t \<in> set ts \<Longrightarrow>
   title t \<noteq> [] \<and> (\<exists>k. knowledge t = Finite k \<and> 1 \<le> k \<and> k \<le> 100)"
proof (induction ts arbitrary: i rs)
  case Nil
  then show ?case by simp
next
  case (Cons a ts)
  from Cons.prems(1) obtain r rs' where
    r: "tech_schema_App (p @ [Index i]) a = Returned r"
    and rs': "parse_items tech_schema_App p (Suc i) ts = Returned rs'"
    and rs: "rs = r # rs'"
    by (auto split: outcome.splits)
  from Cons.prems(2) rs have e: "issues r = []" "concat (map issues rs') = []" by auto
  show ?case
  proof (cases "t = a")
    case True
    then show ?thesis using tech_schema_App_valid[OF r e(1)] by simp
  next
    case False
    with Cons.prems(3) have "t \<in> set ts" by simp
    then show ?thesis using Cons.IH[OF rs' e(2)] by simp
  qed
qed

lemma techs_schema_App_valid:
  assumes "techs_schema_App p ts = Returned r" and "issues r = []" and "t \<in> set ts"
  shows "title t \<noteq> [] \<and> (\<exists>k. knowledge t = Finite k \<and> 1 \<le> k \<and> k \<le> 100)"
proof -
  from assms(1) obtain rs where rs: "parse_items tech_schema_App p 0 ts = Returned rs"
    and r: "issues r = (if length ts < 2 then [Issue p TooFew] else []) @ concat (map issues rs)"
    by (auto simp: techs_schema_App_def z_array_min_def split: outcome.splits)
  from r assms(2) have "concat (map issues rs) = []" by simp
  then show ?thesis using parse_items_App_valid[OF rs _ assms(3)] by simp
qed

lemma safeParseAsync_Valid:
  assumes "safeParseAsync schema x = Returned (Valid d)"
  shows "\<exists>r. schema [] x = Returned r \<and> issues r = [] \<and> deferred r = []"
  using assms by (auto simp: safeParseAsync_def split: outcome.splits list.splits option.splits)

lemma createUserFormSchema_App_techs:
  assumes "createUserFormSchema_App pf p x = Returned r"
  shows "\<exists>t. techs_schema_App (p @ [Key ''techs'']) (techs x) = Returned t \<and>
             set (issues t) \<subseteq> set (issues r)"
  using assms
  by (auto simp: createUserFormSchema_App_def andThen_def email_schema_App_cases
      password_schema_App_cases split: outcome.splits)

text \<open>
  C5. The validation of a form with fewer than 2 technologies does not always yield
  \<open>Invalid\<close> with \<open>TooFew\<close>: with no avatar file, or with a name of one space in the
  schema without the avatar rule, it throws. Where nothing throws it does, as for the
  one technology with a non-empty title (\<open>too_few_techs_cases\<close> has the general
  statement, \<open>techs_schema_TooFew\<close> and \<open>techs_schema_App_TooFew\<close> that of the
  \<open>techs\<close> key alone).
\<close>

theorem C5_too_few_techs_throws:
  "safeParseAsync (createUserFormSchema pf)
       (valid_form\<lparr>avatar := [], techs := [\<lparr>title = utf16 ''React'', knowledge = Finite 50\<rparr>]\<rparr>)
     = Threw \<and>
   safeParseAsync (createUserFormSchema_App pf) (valid_form\<lparr>name := utf16 '' '', techs := []\<rparr>)
     = Threw \<and>
   safeParseAsync (createUserFormSchema host)
       (valid_form\<lparr>techs := [\<lparr>title = utf16 ''React'', knowledge = Finite 50\<rparr>]\<rparr>)
     = Returned (Invalid [Issue [Key ''techs''] TooFew])"
proof -
  have "safeParseAsync (createUserFormSchema_App pf) (valid_form\<lparr>name := utf16 '' '', techs := []\<rparr>)
     = Threw"
    by (simp add: safeParseAsync_def createUserFormSchema_App_def andThen_def
        name_schema_cases nameTransform_cases ev)
  moreover have "safeParseAsync (createUserFormSchema pf)
       (valid_form\<lparr>avatar := [], techs := [\<lparr>title = utf16 ''React'', knowledge = Finite 50\<rparr>]\<rparr>)
     = Threw"
    by (simp add: safeParseAsync_Threw_iff)
  moreover have "safeParseAsync (createUserFormSchema host)
       (valid_form\<lparr>techs := [\<lparr>title = utf16 ''React'', knowledge = Finite 50\<rparr>]\<rparr>)
     = Returned (Invalid [Issue [Key ''techs''] TooFew])"
    by (simp add: safeParseAsync_createUserFormSchema expected_errors_def ev)
  ultimately show ?thesis by simp
qed

text \<open>
  C10. In the schema without the avatar rule, validation succeeds only if every
  technology has a non-empty title and a knowledge that is a number from 1 to 100
  inclusive. The element that \<^verbatim>\<open>addNewTech\<close> appends, with an empty title and
  knowledge 0, gets an issue on each of the two, and an element with a title only,
  whose knowledge coerces to \<^verbatim>\<open>NaN\<close>, gets \<open>NotANumber\<close> and aborts the parse of the
  element.
\<close>

theorem C10_knowledge_required:
  "(safeParseAsync (createUserFormSchema_App pf) x = Returned (Valid d) \<longrightarrow>
      (\<forall>t\<in>set (techs x). title t \<noteq> [] \<and> (\<exists>k. knowledge t = Finite k \<and> 1 \<le> k \<and> k \<le> 100))) \<and>
   tech_schema_App p \<lparr>title = [], knowledge = Finite 0\<rparr> =
     Returned (ParseReturn [Issue (p @ [Key ''title'']) EmptyField,
                            Issue (p @ [Key ''knowledge'']) TooSmall]
                 []
                 (Some \<lparr>title = [], knowledge = Finite 0\<rparr>)) \<and>
   tech_schema_App p \<lparr>title = utf16 ''React'', knowledge = NaN\<rparr> =
     Returned (ParseReturn [Issue (p @ [Key ''knowledge'']) NotANumber] [] None)"
proof -
  have "title t \<noteq> [] \<and> (\<exists>k. knowledge t = Finite k \<and> 1 \<le> k \<and> k \<le> 100)"
    if v: "safeParseAsync (createUserFormSchema_App pf) x = Returned (Valid d)"
      and t: "t \<in> set (techs x)" for t
  proof -
    obtain r where r: "createUserFormSchema_App pf [] x = Returned r" "issues r = []"
      using safeParseAsync_Valid[OF v] by blast
    obtain tr where tr: "techs_schema_App [Key ''techs''] (techs x) = Returned tr"
        "set (issues tr) \<subseteq> set (issues r)"
      using createUserFormSchema_App_techs[OF r(1)] by auto
    with r(2) have "issues tr = []" by simp
    then show ?thesis using techs_schema_App_valid[OF tr(1) _ t] by simp
  qed
  then show ?thesis
    by (auto simp: tech_schema_App_cases utf16_def)
qed

theorem C10_knowledge_required_witness:
  "safeParseAsync (createUserFormSchema_App host) valid_form =
     Returned (Valid \<lparr>avatar = (), name = utf16 ''Ana Paula'', email = utf16 ''user@gmail.com'',
                      password = utf16 ''abc123'',
                      techs = [\<lparr>title = utf16 ''React'', knowledge = Finite 50\<rparr>,
                               \<lparr>title = utf16 ''Vue'', knowledge = Finite 80\<rparr>]\<rparr>) \<and>
   title \<lparr>title = utf16 ''React'', knowledge = Finite 50\<rparr> \<noteq> [] \<and>
   (\<exists>k. knowledge \<lparr>title = utf16 ''React'', knowledge = Finite 50\<rparr> = Finite k \<and> 1 \<le> k \<and> k \<le> 100)"
proof -
  have n: "nameTransform host (utf16 '' ana paula '') = Returned (utf16 ''Ana Paula'')"
    by (simp add: nameTransform_cases ev)
  have t: "techs_schema_App [Key ''techs'']
        [\<lparr>title = utf16 ''React'', knowledge = Finite 50\<rparr>,
         \<lparr>title = utf16 ''Vue'', knowledge = Finite 80\<rparr>] =
      Returned (ParseReturn [] [] (Some [\<lparr>title = utf16 ''React'', knowledge = Finite 50\<rparr>,
                               \<lparr>title = utf16 ''Vue'', knowledge = Finite 80\<rparr>]))"
    by (simp add: techs_schema_App_def z_array_min_def tech_schema_App_cases utf16_def)
  have e: "email_schema_App host [Key ''email''] (utf16 ''USER@GMAIL.COM'') =
      Returned (ParseReturn [] [] (Some (utf16 ''user@gmail.com'')))"
    by (simp add: email_schema_App_cases ev)
  have v: "safeParseAsync (createUserFormSchema_App host) valid_form =
     Returned (Valid \<lparr>avatar = (), name = utf16 ''Ana Paula'', email = utf16 ''user@gmail.com'',
                      password = utf16 ''abc123'',
                      techs = [\<lparr>title = utf16 ''React'', knowledge = Finite 50\<rparr>,
                               \<lparr>title = utf16 ''Vue'', knowledge = Finite 80\<rparr>]\<rparr>)"
    unfolding valid_form_def
    by (simp add: safeParseAsync_def createUserFormSchema_App_def andThen_def name_schema_cases n
        e password_schema_App_cases t)
       (simp add: utf16_def)
  have m: "\<lparr>title = utf16 ''React'', knowledge = Finite 50\<rparr> \<in> set (techs valid_form)"
    by (simp add: valid_form_def)
  show ?thesis
    using v m C10_knowledge_required[of host valid_form _ "[]"]
    by blast
qed

section \<open>The password strength signal and the submission\<close>

lemma ahead_list_ex: "ahead cls s \<Longrightarrow> list_ex cls s"
  by (induction s) auto

lemma ahead_no_terminator: "\<not> list_ex isLineTerminator s \<Longrightarrow> ahead cls s = list_ex cls s"
  by (induction s) (auto simp: dot_def)

lemma takeWhile_dot: "\<not> list_ex isLineTerminator s \<Longrightarrow> takeWhile dot s = s"
  by (induction s) (auto simp: dot_def)

lemma lookaheads_strong: "lookaheads s \<Longrightarrow> strong_by_spec s"
proof -
  assume l: "lookaheads s"
  have "length (takeWhile dot s) \<le> length s" by (rule length_takeWhile_le)
  with l show ?thesis
    by (auto simp: lookaheads_def strong_by_spec_def dest!: ahead_list_ex)
qed

lemma strong_by_spec_Cons: "strong_by_spec cs \<Longrightarrow> strong_by_spec (c # cs)"
  by (auto simp: strong_by_spec_def)

lemma regexp_test_strong: "regexp_test s \<Longrightarrow> strong_by_spec s"
proof (induction s)
  case Nil
  then show ?case by (simp add: lookaheads_strong)
next
  case (Cons c cs)
  then show ?case
    using lookaheads_strong[of "c # cs"] strong_by_spec_Cons[of cs c] by auto
qed

lemma regexp_test_lookaheads: "lookaheads s \<Longrightarrow> regexp_test s"
  by (cases s) simp_all

lemma strong_no_terminator:
  assumes "\<not> list_ex isLineTerminator s"
  shows "isPasswordStrong s = strong_by_spec s"
proof
  assume "isPasswordStrong s"
  then show "strong_by_spec s" by (simp add: isPasswordStrong_def regexp_test_strong)
next
  assume "strong_by_spec s"
  then have "lookaheads s"
    using assms by (simp add: lookaheads_def strong_by_spec_def ahead_no_terminator takeWhile_dot)
  then show "isPasswordStrong s" by (simp add: isPasswordStrong_def regexp_test_lookaheads)
qed

lemma is_valid_password:
  assumes "6 \<le> length p" and "6 \<le> length q"
  shows "is_valid (safeParseAsync (createUserFormSchema pf) (x\<lparr>password := p\<rparr>)) =
         is_valid (safeParseAsync (createUserFormSchema pf) (x\<lparr>password := q\<rparr>))"
proof -
  from assms have ne: "p \<noteq> []" "q \<noteq> []" "\<not> length p < 6" "\<not> length q < 6" by auto
  have "expected_errors pf (x\<lparr>password := p\<rparr>) = expected_errors pf (x\<lparr>password := q\<rparr>)"
    using ne by (simp add: expected_errors_def)
  then show ?thesis
    by (simp add: safeParseAsync_createUserFormSchema)
qed

lemma handleSubmit_cases:
  "handleSubmit pf upload x s =
     (if is_valid (safeParseAsync (createUserFormSchema pf) x)
      then createUser upload (expected_data pf x) s
      else if safeParseAsync (createUserFormSchema pf) x = Threw then Threw
      else Returned s)"
  by (simp add: handleSubmit_def safeParseAsync_createUserFormSchema)

lemmas ev_pw = isPasswordStrong_def lookaheads_def strong_by_spec_def dot_def isLineTerminator_def
  isLower_def isUpper_def isDigit_def isSymbol_def utf16_def

text \<open>
  C7. The strength signal is not true for every password that has a lowercase letter,
  an uppercase letter, a digit and a symbol and is at least 8 long: \<^verbatim>\<open>.\<close> does not
  match a line terminator, so the look-aheads cannot reach across one. A password field
  strips LF and CR from what is typed or pasted, but not the line separator U+2028: the
  password \<open>aA1!\<close>, U+2028, \<open>aaa\<close> meets the five conditions and the signal is
  false. Without a line terminator the signal is the five conditions
  (\<open>strong_no_terminator\<close>), as for \<open>aA1!aaaa\<close> and \<open>abc123\<close>; validation and
  the call of the handler do not depend on it (\<open>is_valid_password\<close>,
  \<open>handleSubmit_cases\<close>).
\<close>

theorem C7_password_strength_line_separator:
  "strong_by_spec (utf16 ''aA1!'' @ [0x2028] @ utf16 ''aaa'') \<and>
   \<not> isPasswordStrong (utf16 ''aA1!'' @ [0x2028] @ utf16 ''aaa'') \<and>
   strong_by_spec (utf16 ''aA1!aaaa'') \<and> isPasswordStrong (utf16 ''aA1!aaaa'') \<and>
   \<not> strong_by_spec (utf16 ''abc123'') \<and> \<not> isPasswordStrong (utf16 ''abc123'')"
  by (simp add: ev_pw)

text \<open>
  C9, as amended. When the upload resolves with an error, \<^verbatim>\<open>createUser\<close> does not
  report it: it returns normally, with exactly the state it leaves after a successful
  upload, the output being the JSON text of the unaltered validated data.
\<close>

theorem C9_upload_error_ignored:
  "createUser (UploadError e) d s = Returned (s\<lparr>output_text := JSON_stringify d\<rparr>) \<and>
   createUser (UploadError e) d s = createUser Uploaded d s"
  by (simp add: createUser_def)

text \<open>
  C9 as stated fails: a rejected upload is not told apart from a successful one, by
  the handler or by the submit as a whole.
\<close>

theorem C9_counterexample:
  "createUser (UploadError ''rejected'') (expected_data host valid_form) initial_state =
   createUser Uploaded (expected_data host valid_form) initial_state \<and>
   handleSubmit host (UploadError ''rejected'') valid_form initial_state =
   handleSubmit host Uploaded valid_form initial_state"
  by (simp add: createUser_def handleSubmit_def safeParseAsync_createUserFormSchema
      split: validation_result.splits outcome.splits)

end
